theory Spec2Isabelle
  imports Main "HOL-Library.Sublist" "HOL-Library.Multiset"
begin

section \<open>Data model (packages/audit-runner/src/types.ts)\<close>

text \<open>
  JavaScript strings are modelled as \<^typ>\<open>string\<close>: one \<^typ>\<open>char\<close> stands for one
  UTF-16 code unit, so \<^const>\<open>length\<close>, \<^const>\<open>take\<close> and \<open>@\<close> are the source's
  \<^verbatim>\<open>.length\<close>, \<^verbatim>\<open>.slice(0, n)\<close> and \<^verbatim>\<open>+\<close>. The model is exact on ASCII
  text. The three literals of the source that lie outside ASCII are written with
  placeholder characters of the same number of code units.
\<close>

datatype FindingSeverity = Critical | High | Medium | Low | Info

text \<open>The field \<^verbatim>\<open>source: "secureclaw" | "custom"\<close> of a normalized finding.\<close>

datatype FindingSource = Secureclaw | Custom

datatype AuditType = Full | SupplyChain | Quick | CustomAudit

datatype TriggerSource = Cron | Manual | PostInstall | Ci

text \<open>The ten codes of the type \<^verbatim>\<open>OWASPCategory\<close>.\<close>

definition OWASP_CATEGORIES :: "string list" where
  "OWASP_CATEGORIES =
     [''ASI01'', ''ASI02'', ''ASI03'', ''ASI04'', ''ASI05'',
      ''ASI06'', ''ASI07'', ''ASI08'', ''ASI09'', ''ASI10'']"

definition OWASP_NAMES :: "(string \<times> string) list" where
  "OWASP_NAMES =
     [(''ASI01'', ''Goal Hijack / Prompt Injection''),
      (''ASI02'', ''Sensitive Information Disclosure''),
      (''ASI03'', ''Misconfigured Secrets & PII Leakage''),
      (''ASI04'', ''Insecure Code Execution''),
      (''ASI05'', ''Model Denial of Service''),
      (''ASI06'', ''Cognitive File & Identity Tampering''),
      (''ASI07'', ''Supply Chain Compromise''),
      (''ASI08'', ''Insecure Tool Use''),
      (''ASI09'', ''Unsafe Output Handling''),
      (''ASI10'', ''Excessive Agency / Privilege Escalation'')]"

text \<open>
  The scanner's finding, as it is read from JSON. Optional fields are options. The
  category is declared a string, but the parser guards it with \<^verbatim>\<open>??\<close>, so the model
  keeps the absent case.
\<close>

record SecureClawFinding =
  sc_id :: string
  sc_name :: string
  sc_category :: "string option"
  sc_severity :: FindingSeverity
  sc_passed :: bool
  sc_evidence :: "string option"
  sc_remediation :: "string option"
  sc_owaspMapping :: "string option"
  sc_module :: "string option"

record SecureClawOutput =
  out_version :: string
  out_timestamp :: string
  out_hostname :: string
  out_checksRun :: int
  out_checksPassed :: int
  out_checksFailed :: int
  out_findings :: "SecureClawFinding list"
  out_riskScore :: int

text \<open>
  The unified finding. \<^verbatim>\<open>owaspCategory\<close> is a string here because the parser can
  store a string that is none of the ten codes; \<^verbatim>\<open>owaspName\<close> is the lookup in
  \<^const>\<open>OWASP_NAMES\<close>, which is \<^verbatim>\<open>undefined\<close> for such a string.
\<close>

record NormalizedFinding =
  checkId :: string
  checkName :: string
  source :: FindingSource
  owaspCategory :: string
  owaspName :: "string option"
  category :: string
  severity :: FindingSeverity
  passed :: bool
  evidence :: "string option"
  remediation :: "string option"

record CustomCheckResult =
  cc_checkId :: string
  cc_checkName :: string
  cc_category :: string
  cc_owaspCategory :: string
  cc_passed :: bool
  cc_severity :: FindingSeverity
  cc_evidence :: "string option"
  cc_remediation :: "string option"

record RawAuditOutput =
  raw_secureclaw :: "SecureClawOutput option"
  raw_customChecks :: "CustomCheckResult list"
  raw_errors :: "string list"

record AuditDiff =
  auditId :: string
  previousAuditId :: "string option"
  newFindings :: "NormalizedFinding list"
  resolvedFindings :: "NormalizedFinding list"
  persistingFindings :: "NormalizedFinding list"
  riskScoreDelta :: int
  newCriticals :: "NormalizedFinding list"

record AuditSummary =
  s_type :: AuditType
  s_triggeredBy :: TriggerSource
  s_secureclawVersion :: string
  s_checksRun :: int
  s_checksPassed :: int
  s_checksFailed :: int
  s_criticalCount :: int
  s_highCount :: int
  s_mediumCount :: int
  s_lowCount :: int
  s_infoCount :: int
  s_hostRiskScore :: int
  s_newFindingsCount :: int
  s_resolvedFindingsCount :: int
  s_riskScoreDelta :: int
  s_startedAt :: int
  s_finishedAt :: int
  s_durationMs :: int

section \<open>Risk scorer (parser.ts)\<close>

text \<open>
  \<^verbatim>\<open>computeRiskScore\<close>: the failing findings are counted per severity, the counts
  are weighted and the sum is capped by \<^verbatim>\<open>Math.min(100, score)\<close>.
\<close>

definition computeRiskScore :: "NormalizedFinding list \<Rightarrow> int" where
  "computeRiskScore findings =
     (let failed = filter (\<lambda>f. \<not> passed f) findings;
          score =
            int (length (filter (\<lambda>f. severity f = Critical) failed)) * 25 +
            int (length (filter (\<lambda>f. severity f = High) failed)) * 10 +
            int (length (filter (\<lambda>f. severity f = Medium) failed)) * 3 +
            int (length (filter (\<lambda>f. severity f = Low) failed)) * 1
      in min 100 score)"

text \<open>The weights as the specification lists them, and the score it describes.\<close>

fun severityWeight :: "FindingSeverity \<Rightarrow> int" where
  "severityWeight Critical = 25"
| "severityWeight High = 10"
| "severityWeight Medium = 3"
| "severityWeight Low = 1"
| "severityWeight Info = 0"

definition specScore :: "NormalizedFinding list \<Rightarrow> int" where
  "specScore findings =
     min 100 (sum_list (map (\<lambda>f. severityWeight (severity f)) (filter (\<lambda>f. \<not> passed f) findings)))"

record SeverityCounts =
  critical :: int
  high :: int
  medium :: int
  low :: int
  info :: int

definition countBySeverity :: "NormalizedFinding list \<Rightarrow> SeverityCounts" where
  "countBySeverity findings =
     (let failed = filter (\<lambda>f. \<not> passed f) findings
      in \<lparr> critical = int (length (filter (\<lambda>f. severity f = Critical) failed)),
           high = int (length (filter (\<lambda>f. severity f = High) failed)),
           medium = int (length (filter (\<lambda>f. severity f = Medium) failed)),
           low = int (length (filter (\<lambda>f. severity f = Low) failed)),
           info = int (length (filter (\<lambda>f. severity f = Info) failed)) \<rparr>)"

definition failedFindings :: "NormalizedFinding list \<Rightarrow> NormalizedFinding list" where
  "failedFindings findings = filter (\<lambda>f. \<not> passed f) findings"

section \<open>Audit differ (differ.ts)\<close>

fun sourceString :: "FindingSource \<Rightarrow> string" where
  "sourceString Secureclaw = ''secureclaw''"
| "sourceString Custom = ''custom''"

text \<open>\<^verbatim>\<open>makeFindingKey\<close>: the template string \<^verbatim>\<open>${f.source}::${f.checkId}\<close>.\<close>

definition makeFindingKey :: "NormalizedFinding \<Rightarrow> string" where
  "makeFindingKey f = sourceString (source f) @ ''::'' @ checkId f"

record PreviousAuditFindings =
  prev_auditId :: string
  prev_findings :: "NormalizedFinding list"
  prev_hostRiskScore :: int

text \<open>
  The first loop of \<^verbatim>\<open>AuditDiffer.compute\<close>: every failing finding of the current
  run is pushed to \<^verbatim>\<open>newFindings\<close> when its key is not in \<^verbatim>\<open>previousKeys\<close>, and
  to \<^verbatim>\<open>persistingFindings\<close> otherwise. The pair holds the two arrays.
\<close>

fun classifyCurrent ::
  "string set \<Rightarrow> NormalizedFinding list \<Rightarrow> NormalizedFinding list \<times> NormalizedFinding list
     \<Rightarrow> NormalizedFinding list \<times> NormalizedFinding list" where
  "classifyCurrent previousKeys [] (nw, ps) = (nw, ps)"
| "classifyCurrent previousKeys (finding # rest) (nw, ps) =
     (if makeFindingKey finding \<notin> previousKeys
      then classifyCurrent previousKeys rest (nw @ [finding], ps)
      else classifyCurrent previousKeys rest (nw, ps @ [finding]))"

text \<open>
  The second loop: a failing finding of the previous run is pushed to
  \<^verbatim>\<open>resolvedFindings\<close> when its key is not in \<^verbatim>\<open>currentKeys\<close>.
\<close>

fun collectResolved ::
  "string set \<Rightarrow> NormalizedFinding list \<Rightarrow> NormalizedFinding list \<Rightarrow> NormalizedFinding list" where
  "collectResolved currentKeys [] acc = acc"
| "collectResolved currentKeys (finding # rest) acc =
     (if makeFindingKey finding \<notin> currentKeys
      then collectResolved currentKeys rest (acc @ [finding])
      else collectResolved currentKeys rest acc)"

text \<open>\<^verbatim>\<open>AuditDiffer.compute\<close>; \<^verbatim>\<open>previous\<close> is \<^verbatim>\<open>null\<close> when it is \<^const>\<open>None\<close>.\<close>

definition compute ::
  "string \<Rightarrow> NormalizedFinding list \<Rightarrow> int \<Rightarrow> PreviousAuditFindings option \<Rightarrow> AuditDiff" where
  "compute currentAuditId currentFindings currentRiskScore previous =
     (let currentFailed = filter (\<lambda>f. \<not> passed f) currentFindings
      in case previous of
           None \<Rightarrow>
             \<lparr> auditId = currentAuditId,
               previousAuditId = None,
               newFindings = currentFailed,
               resolvedFindings = [],
               persistingFindings = [],
               riskScoreDelta = currentRiskScore,
               newCriticals = filter (\<lambda>f. severity f = Critical) currentFailed \<rparr>
         | Some prev \<Rightarrow>
             (let previousFailed = filter (\<lambda>f. \<not> passed f) (prev_findings prev);
                  currentKeys = set (map makeFindingKey currentFailed);
                  previousKeys = set (map makeFindingKey previousFailed);
                  classified = classifyCurrent previousKeys currentFailed ([], []);
                  resolved = collectResolved currentKeys previousFailed []
              in \<lparr> auditId = currentAuditId,
                    previousAuditId = Some (prev_auditId prev),
                    newFindings = fst classified,
                    resolvedFindings = resolved,
                    persistingFindings = snd classified,
                    riskScoreDelta = currentRiskScore - prev_hostRiskScore prev,
                    newCriticals = filter (\<lambda>f. severity f = Critical) (fst classified) \<rparr>))"

text \<open>
  For the statement that the classification depends on the key alone:
  \<open>rewriteOtherFields t f\<close> is \<open>f\<close> with every field other than \<^verbatim>\<open>source\<close>,
  \<^verbatim>\<open>checkId\<close> and \<^verbatim>\<open>passed\<close> taken from \<open>t\<close>, and \<open>rewritePrevious h\<close>
  applies \<open>h\<close> to every finding of a previous run.
\<close>

definition rewriteOtherFields :: "NormalizedFinding \<Rightarrow> NormalizedFinding \<Rightarrow> NormalizedFinding" where
  "rewriteOtherFields t f =
     f\<lparr> checkName := checkName t, owaspCategory := owaspCategory t, owaspName := owaspName t,
        category := category t, severity := severity t, evidence := evidence t,
        remediation := remediation t \<rparr>"

definition rewritePrevious ::
  "(NormalizedFinding \<Rightarrow> NormalizedFinding) \<Rightarrow> PreviousAuditFindings \<Rightarrow> PreviousAuditFindings" where
  "rewritePrevious h p = p\<lparr> prev_findings := map h (prev_findings p) \<rparr>"

section \<open>Finding normalizer (parser.ts)\<close>

text \<open>
  The two lookup tables, in the order of the source. A lookup \<^verbatim>\<open>TABLE[key]\<close> is
  \<^const>\<open>map_of\<close> on the table's own keys; no key is listed twice. The properties
  an object literal inherits (a key such as \<^verbatim>\<open>constructor\<close>) are left out of the
  model.
\<close>

definition SECURECLAW_OWASP_MAP :: "(string \<times> string) list" where
  "SECURECLAW_OWASP_MAP =
     [(''SC-001'', ''ASI01''), (''SC-002'', ''ASI01''), (''SC-003'', ''ASI01''),
      (''SC-004'', ''ASI01''), (''SC-005'', ''ASI01''),
      (''SC-010'', ''ASI02''), (''SC-011'', ''ASI02''), (''SC-012'', ''ASI02''),
      (''SC-013'', ''ASI02''),
      (''SC-020'', ''ASI03''), (''SC-021'', ''ASI03''), (''SC-022'', ''ASI03''),
      (''SC-023'', ''ASI03''), (''SC-024'', ''ASI03''), (''SC-025'', ''ASI03''),
      (''SC-030'', ''ASI04''), (''SC-031'', ''ASI04''), (''SC-032'', ''ASI04''),
      (''SC-035'', ''ASI05''), (''SC-036'', ''ASI05''),
      (''SC-040'', ''ASI06''), (''SC-041'', ''ASI06''), (''SC-042'', ''ASI06''),
      (''SC-043'', ''ASI06''), (''SC-044'', ''ASI06''), (''SC-045'', ''ASI06''),
      (''SC-050'', ''ASI07''), (''SC-051'', ''ASI07''), (''SC-052'', ''ASI07''),
      (''SC-053'', ''ASI07''), (''SC-054'', ''ASI07''),
      (''SC-060'', ''ASI08''), (''SC-061'', ''ASI08''), (''SC-062'', ''ASI08''),
      (''SC-070'', ''ASI09''), (''SC-071'', ''ASI09''),
      (''SC-080'', ''ASI10''), (''SC-081'', ''ASI10''), (''SC-082'', ''ASI10'')]"

definition CATEGORY_OWASP_MAP :: "(string \<times> string) list" where
  "CATEGORY_OWASP_MAP =
     [(''prompt_injection'', ''ASI01''), (''goal_hijack'', ''ASI01''), (''injection'', ''ASI01''),
      (''information_disclosure'', ''ASI02''), (''data_leakage'', ''ASI02''),
      (''pii_exposure'', ''ASI02''),
      (''secrets_exposure'', ''ASI03''), (''credential_exposure'', ''ASI03''),
      (''file_permissions'', ''ASI06''), (''config_exposure'', ''ASI03''),
      (''api_key_exposure'', ''ASI03''), (''pii_leakage'', ''ASI03''),
      (''code_execution'', ''ASI04''), (''rce'', ''ASI04''), (''shell_injection'', ''ASI04''),
      (''dos'', ''ASI05''), (''resource_exhaustion'', ''ASI05''),
      (''cognitive_file'', ''ASI06''), (''identity_tampering'', ''ASI06''),
      (''soul_file'', ''ASI06''), (''memory_file'', ''ASI06''),
      (''supply_chain'', ''ASI07''), (''clawhavoc'', ''ASI07''), (''skill_validation'', ''ASI07''),
      (''tool_use'', ''ASI08''), (''tool_abuse'', ''ASI08''),
      (''unsafe_output'', ''ASI09''), (''xss'', ''ASI09''),
      (''privilege_escalation'', ''ASI10''), (''excessive_agency'', ''ASI10''),
      (''gateway_config'', ''ASI03''), (''gateway_exposure'', ''ASI03''),
      (''auth'', ''ASI10''), (''cron_injection'', ''ASI01'')]"

definition EVIDENCE_MAX_CHARS :: nat where
  "EVIDENCE_MAX_CHARS = 500"

text \<open>
  The marker the source appends: the horizontal ellipsis (one code unit, written here
  as the placeholder \<open>CHR 0x85\<close>) followed by \<^verbatim>\<open>[truncated]\<close>.
\<close>

definition TRUNCATION_MARKER :: string where
  "TRUNCATION_MARKER = CHR 0x85 # ''[truncated]''"

text \<open>
  \<^verbatim>\<open>truncateEvidence\<close>. The guard \<^verbatim>\<open>if (!evidence) return undefined\<close> is taken by
  an absent evidence and by the empty string, which is falsy.
\<close>

definition truncateEvidence :: "string option \<Rightarrow> string option" where
  "truncateEvidence ev =
     (case ev of
        None \<Rightarrow> None
      | Some e \<Rightarrow>
          if e = [] then None
          else if length e \<le> EVIDENCE_MAX_CHARS then Some e
          else Some (take EVIDENCE_MAX_CHARS e @ TRUNCATION_MARKER))"

text \<open>
  The string methods the category inference calls, on ASCII:
  \<^verbatim>\<open>toUpperCase()\<close>, \<^verbatim>\<open>toLowerCase()\<close>, \<^verbatim>\<open>replace(/\s/g, "")\<close>,
  \<^verbatim>\<open>replace(/[- ]/g, "_")\<close> and \<^verbatim>\<open>startsWith\<close>.
\<close>

definition toUpperCase :: "string \<Rightarrow> string" where
  "toUpperCase s =
     map (\<lambda>c. case map_of (zip ''abcdefghijklmnopqrstuvwxyz'' ''ABCDEFGHIJKLMNOPQRSTUVWXYZ'') c of
                 Some u \<Rightarrow> u | None \<Rightarrow> c) s"

definition toLowerCase :: "string \<Rightarrow> string" where
  "toLowerCase s =
     map (\<lambda>c. case map_of (zip ''ABCDEFGHIJKLMNOPQRSTUVWXYZ'' ''abcdefghijklmnopqrstuvwxyz'') c of
                 Some l \<Rightarrow> l | None \<Rightarrow> c) s"

definition isWhitespace :: "char \<Rightarrow> bool" where
  "isWhitespace c \<longleftrightarrow> c \<in> set [CHR 0x09, CHR 0x0A, CHR 0x0B, CHR 0x0C, CHR 0x0D, CHR '' '']"

definition removeWhitespace :: "string \<Rightarrow> string" where
  "removeWhitespace s = filter (\<lambda>c. \<not> isWhitespace c) s"

definition dashSpaceToUnderscore :: "string \<Rightarrow> string" where
  "dashSpaceToUnderscore s = map (\<lambda>c. if c = CHR ''-'' \<or> c = CHR '' '' then CHR ''_'' else c) s"

definition startsWith :: "string \<Rightarrow> string \<Rightarrow> bool" where
  "startsWith s p \<longleftrightarrow> take (length p) s = p"

text \<open>
  \<^verbatim>\<open>inferOWASPFromSecureClawFinding\<close>, step by step as in the source: the ID table;
  then the \<^verbatim>\<open>owaspMapping\<close> field when it is present and not empty, upper-cased and
  stripped of white space, accepted when it starts with \<^verbatim>\<open>ASI\<close> and has at most five
  characters; then the category table under the normalised category; then
  \<^verbatim>\<open>ASI03\<close>. The result is the string the source returns.
\<close>

definition inferOWASPFromSecureClawFinding :: "SecureClawFinding \<Rightarrow> string" where
  "inferOWASPFromSecureClawFinding finding =
     (case map_of SECURECLAW_OWASP_MAP (sc_id finding) of
        Some fromId \<Rightarrow> fromId
      | None \<Rightarrow>
          (let fromMapping =
                 (case sc_owaspMapping finding of
                    None \<Rightarrow> None
                  | Some m \<Rightarrow>
                      if m = [] then None
                      else (let normalized = removeWhitespace (toUpperCase m)
                            in if startsWith normalized ''ASI'' \<and> length normalized \<le> 5
                               then Some normalized else None))
           in case fromMapping of
                Some c \<Rightarrow> c
              | None \<Rightarrow>
                  (let categoryKey =
                         dashSpaceToUnderscore
                           (toLowerCase (case sc_category finding of None \<Rightarrow> [] | Some c \<Rightarrow> c))
                   in case map_of CATEGORY_OWASP_MAP categoryKey of
                        Some c \<Rightarrow> c
                      | None \<Rightarrow> ''ASI03'')))"

definition normalizeSecureClawFinding :: "SecureClawFinding \<Rightarrow> NormalizedFinding" where
  "normalizeSecureClawFinding finding =
     (let oc = inferOWASPFromSecureClawFinding finding
      in \<lparr> checkId = sc_id finding,
           checkName = sc_name finding,
           source = Secureclaw,
           owaspCategory = oc,
           owaspName = map_of OWASP_NAMES oc,
           category = (case sc_category finding of None \<Rightarrow> ''general'' | Some c \<Rightarrow> c),
           severity = sc_severity finding,
           passed = sc_passed finding,
           evidence = truncateEvidence (sc_evidence finding),
           remediation = sc_remediation finding \<rparr>)"

definition normalizeCustomCheckResult :: "CustomCheckResult \<Rightarrow> NormalizedFinding" where
  "normalizeCustomCheckResult result =
     (let oc = cc_owaspCategory result
      in \<lparr> checkId = cc_checkId result,
           checkName = cc_checkName result,
           source = Custom,
           owaspCategory = oc,
           owaspName = map_of OWASP_NAMES oc,
           category = cc_category result,
           severity = cc_severity result,
           passed = cc_passed result,
           evidence = truncateEvidence (cc_evidence result),
           remediation = cc_remediation result \<rparr>)"

text \<open>
  \<^verbatim>\<open>ResultParser.parse\<close>: the scanner's findings in order, when the scanner's output
  is present, then the custom results in order.
\<close>

definition parse :: "RawAuditOutput \<Rightarrow> NormalizedFinding list" where
  "parse raw =
     (case raw_secureclaw raw of
        None \<Rightarrow> []
      | Some out \<Rightarrow> map normalizeSecureClawFinding (out_findings out))
     @ map normalizeCustomCheckResult (raw_customChecks raw)"

definition getTotalChecksRun :: "RawAuditOutput \<Rightarrow> int" where
  "getTotalChecksRun raw =
     (let scChecks = (case raw_secureclaw raw of None \<Rightarrow> 0 | Some out \<Rightarrow> out_checksRun out);
          customChecks = int (length (raw_customChecks raw))
      in scChecks + customChecks)"

definition getTotalChecksPassed :: "RawAuditOutput \<Rightarrow> int" where
  "getTotalChecksPassed raw =
     (let scPassed = (case raw_secureclaw raw of None \<Rightarrow> 0 | Some out \<Rightarrow> out_checksPassed out);
          customPassed = int (length (filter cc_passed (raw_customChecks raw)))
      in scPassed + customPassed)"

section \<open>Alerter (alerter.ts)\<close>

text \<open>
  The two literals of the alert message outside ASCII, as placeholders of the same
  number of code units: the siren emoji (a surrogate pair) and the em dash.
\<close>

definition SIREN :: string where
  "SIREN = [CHR 0xD8, CHR 0xDE]"

definition EMDASH :: string where
  "EMDASH = [CHR 0x97]"

text \<open>\<^verbatim>\<open>Array.prototype.join\<close> on an array of strings.\<close>

fun join :: "string list \<Rightarrow> string \<Rightarrow> string" where
  "join [] sep = []"
| "join [x] sep = x"
| "join (x # y # ys) sep = x @ sep @ join (y # ys) sep"

text \<open>
  \<^verbatim>\<open>[...new Set(xs)]\<close>: the values in the order of their first occurrence. The first
  argument is the set built so far.
\<close>

fun setValues :: "'a list \<Rightarrow> 'a list \<Rightarrow> 'a list" where
  "setValues seen [] = seen"
| "setValues seen (x # xs) =
     (if x \<in> set seen then setValues seen xs else setValues (seen @ [x]) xs)"

text \<open>A length printed in a template string: the decimal digits.\<close>

fun digitChar :: "nat \<Rightarrow> char" where
  "digitChar n = ''0123456789'' ! (n mod 10)"

function numberToString :: "nat \<Rightarrow> string" where
  "numberToString n =
     (if n < 10 then [digitChar n] else numberToString (n div 10) @ [digitChar n])"
  by pat_completeness auto
termination
  by (relation "measure id") auto

declare numberToString.simps [simp del]

definition buildAlertMessage :: "NormalizedFinding list \<Rightarrow> string \<Rightarrow> string" where
  "buildAlertMessage criticals aid =
     (let categories = join (setValues [] (map owaspCategory criticals)) '', '';
          checkNames = join (map checkName criticals) '', ''
      in SIREN @ '' '' @ numberToString (length criticals) @ '' new CRITICAL finding''
           @ (if length criticals \<noteq> 1 then ''s'' else '''') @ '' ''
         @ ''in audit '' @ aid @ '' '' @ EMDASH @ '' ''
         @ ''Categories: '' @ categories @ '' '' @ EMDASH @ '' ''
         @ ''Checks: '' @ take 200 checkNames)"

record SecurityEvent =
  eventType :: string
  ev_severity :: FindingSeverity
  ev_source :: string
  sourceId :: "string option"
  message :: string
  acknowledged :: bool
  createdAt :: int

text \<open>
  \<^verbatim>\<open>alertOnCriticals\<close>: the result is the list of events the function posts to the
  security-event endpoint; \<open>now\<close> is \<^verbatim>\<open>Date.now()\<close>. A failing post is caught and
  logged by the source, so the function never throws.
\<close>

definition alertOnCriticals :: "AuditDiff \<Rightarrow> int \<Rightarrow> SecurityEvent list" where
  "alertOnCriticals diff now =
     (if length (newCriticals diff) = 0 then []
      else [\<lparr> eventType = ''new_critical_finding'',
              ev_severity = Critical,
              ev_source = ''secureclaw'',
              sourceId = Some (auditId diff),
              message = buildAlertMessage (newCriticals diff) (auditId diff),
              acknowledged = False,
              createdAt = now \<rparr>])"

section \<open>Reporter (reporter.ts)\<close>

datatype FindingStatus = Open | Acknowledged | Remediated | Accepted

text \<open>\<^verbatim>\<open>interface UpsertFindingBody extends NormalizedFinding\<close>.\<close>

record UpsertFindingBody = NormalizedFinding +
  body_auditId :: string
  isNew :: bool
  status :: FindingStatus
  firstSeenAt :: int
  lastSeenAt :: int

definition BATCH_SIZE :: nat where
  "BATCH_SIZE = 20"

text \<open>The object one failing finding is mapped to: the finding's fields and five more.\<close>

definition upsertBody :: "string \<Rightarrow> string set \<Rightarrow> int \<Rightarrow> NormalizedFinding \<Rightarrow> UpsertFindingBody" where
  "upsertBody aid newCheckIds now f =
     \<lparr> checkId = checkId f, checkName = checkName f, source = source f,
       owaspCategory = owaspCategory f, owaspName = owaspName f, category = category f,
       severity = severity f, passed = passed f, evidence = evidence f,
       remediation = remediation f,
       body_auditId = aid,
       isNew = (checkId f \<in> newCheckIds),
       status = Open,
       firstSeenAt = now,
       lastSeenAt = now \<rparr>"

definition findingBodies ::
  "string \<Rightarrow> NormalizedFinding list \<Rightarrow> AuditDiff \<Rightarrow> int \<Rightarrow> UpsertFindingBody list" where
  "findingBodies aid findings diff now =
     (let newCheckIds = set (map checkId (newFindings diff))
      in map (upsertBody aid newCheckIds now) (filter (\<lambda>f. \<not> passed f) findings))"

text \<open>
  The batch loop \<^verbatim>\<open>for (let i = 0; i < findingBodies.length; i += BATCH_SIZE)\<close>:
  the list of batches posted, each \<^verbatim>\<open>findingBodies.slice(i, i + BATCH_SIZE)\<close>.
\<close>

function batchLoop :: "nat \<Rightarrow> 'a list \<Rightarrow> 'a list list" where
  "batchLoop i bodies =
     (if i < length bodies
      then take BATCH_SIZE (drop i bodies) # batchLoop (i + BATCH_SIZE) bodies
      else [])"
  by pat_completeness auto
termination
  by (relation "measure (\<lambda>(i, bodies). length bodies - i)") (auto simp: BATCH_SIZE_def)

declare batchLoop.simps [simp del]

text \<open>
  \<^verbatim>\<open>upsertFindings\<close>: the batches of finding bodies posted to the results endpoint,
  when every post succeeds.
\<close>

definition upsertFindings ::
  "string \<Rightarrow> NormalizedFinding list \<Rightarrow> AuditDiff \<Rightarrow> int \<Rightarrow> UpsertFindingBody list list" where
  "upsertFindings aid findings diff now = batchLoop 0 (findingBodies aid findings diff now)"

section \<open>A finding used in the worked examples\<close>

definition fixtureFinding :: NormalizedFinding where
  "fixtureFinding =
     \<lparr> checkId = ''custom.git-secret-scan'', checkName = ''Git secret scan'', source = Custom,
       owaspCategory = ''ASI03'', owaspName = Some ''Misconfigured Secrets & PII Leakage'',
       category = ''secrets_exposure'', severity = Critical, passed = False,
       evidence = None, remediation = None \<rparr>"

section \<open>Orchestrator (index.ts)\<close>

record OrchestratorConfig =
  cfg_type :: AuditType
  cfg_triggeredBy :: TriggerSource
  cfg_dryRun :: bool

text \<open>
  What the persistence calls of step 6 do, in their order: \<^verbatim>\<open>createAudit\<close> throws, or
  returns the audit ID and then \<^verbatim>\<open>upsertFindings\<close> throws, or \<^verbatim>\<open>completeAudit\<close>
  throws, or all three succeed. The string beside the ID is the error thrown.
\<close>

datatype ConvexOutcome =
  CreateAuditThrows string
  | UpsertThrows string string
  | CompleteThrows string string
  | Persisted string

text \<open>
  Everything \<^verbatim>\<open>runAudit\<close> reads from outside: the two clock readings, the scanner's
  version, the previous run the reporter returns (\<^verbatim>\<open>null\<close> also when the fetch fails,
  since the reporter catches its own errors), the raw output of the runner, the outcome
  of the persistence calls and the clock reading of the alerter.
\<close>

record World =
  w_startedAt :: int
  w_finishedAt :: int
  w_scVersion :: string
  w_previous :: "PreviousAuditFindings option"
  w_raw :: RawAuditOutput
  w_convex :: ConvexOutcome
  w_alertAt :: int

record OrchestratorResult =
  res_auditId :: string
  res_summary :: AuditSummary
  res_findings :: "NormalizedFinding list"
  res_diff :: AuditDiff
  res_errors :: "string list"

text \<open>
  \<^verbatim>\<open>runAudit\<close>: the result it returns and the alert events it posts. The summary is
  built before anything is persisted, and \<^verbatim>\<open>completeAudit\<close> sends its aggregate
  fields unchanged.
\<close>

definition runAudit :: "OrchestratorConfig \<Rightarrow> World \<Rightarrow> OrchestratorResult \<times> SecurityEvent list" where
  "runAudit config w =
     (let startedAt = w_startedAt w;
          previousAudit = (if cfg_dryRun config then None else w_previous w);
          rawOutput = w_raw w;
          errors = raw_errors rawOutput;
          findings = parse rawOutput;
          bySeverity = countBySeverity findings;
          hostRiskScore = computeRiskScore findings;
          diff = compute ''pending'' findings hostRiskScore previousAudit;
          finishedAt = w_finishedAt w;
          durationMs = finishedAt - startedAt;
          summary =
            \<lparr> s_type = cfg_type config,
              s_triggeredBy = cfg_triggeredBy config,
              s_secureclawVersion = w_scVersion w,
              s_checksRun = getTotalChecksRun rawOutput,
              s_checksPassed = getTotalChecksPassed rawOutput,
              s_checksFailed = getTotalChecksRun rawOutput - getTotalChecksPassed rawOutput,
              s_criticalCount = critical bySeverity,
              s_highCount = high bySeverity,
              s_mediumCount = medium bySeverity,
              s_lowCount = low bySeverity,
              s_infoCount = info bySeverity,
              s_hostRiskScore = hostRiskScore,
              s_newFindingsCount = int (length (newFindings diff)),
              s_resolvedFindingsCount = int (length (resolvedFindings diff)),
              s_riskScoreDelta = riskScoreDelta diff,
              s_startedAt = startedAt,
              s_finishedAt = finishedAt,
              s_durationMs = durationMs \<rparr>;
          result = (\<lambda>aid d errs.
            \<lparr> res_auditId = aid, res_summary = summary, res_findings = findings,
              res_diff = d, res_errors = errs \<rparr>);
          failed = (\<lambda>err. errors @ [''Failed to push results to Convex: '' @ err])
      in if cfg_dryRun config then (result ''dry-run'' diff errors, [])
         else (case w_convex w of
                 CreateAuditThrows err \<Rightarrow> (result ''dry-run'' diff (failed err), [])
               | UpsertThrows aid err \<Rightarrow> (result aid (diff\<lparr>auditId := aid\<rparr>) (failed err), [])
               | CompleteThrows aid err \<Rightarrow> (result aid (diff\<lparr>auditId := aid\<rparr>) (failed err), [])
               | Persisted aid \<Rightarrow>
                   (result aid (diff\<lparr>auditId := aid\<rparr>) errors,
                    alertOnCriticals (diff\<lparr>auditId := aid\<rparr>) (w_alertAt w))))"

section \<open>Command line (bin/audit.ts)\<close>

text \<open>
  The parsed options with their defaults applied, and the two environment values
  (\<^verbatim>\<open>CONVEX_URL ?? CONVEX_SITE_URL ?? ""\<close> and \<^verbatim>\<open>CLAW_API_KEY ?? ""\<close>).
\<close>

record CliArgs =
  arg_help :: bool
  arg_type :: string
  arg_triggeredBy :: string
  arg_dryRun :: bool
  env_convexUrl :: string
  env_apiKey :: string

definition VALID_AUDIT_TYPES :: "(string \<times> AuditType) list" where
  "VALID_AUDIT_TYPES =
     [(''full'', Full), (''quick'', Quick), (''supply-chain'', SupplyChain), (''custom'', CustomAudit)]"

definition VALID_TRIGGER_SOURCES :: "(string \<times> TriggerSource) list" where
  "VALID_TRIGGER_SOURCES =
     [(''cron'', Cron), (''manual'', Manual), (''post-install'', PostInstall), (''ci'', Ci)]"

text \<open>
  \<^verbatim>\<open>main\<close>: the exit code of the process and the error lines of the run it prints to
  standard error. \<open>run\<close> is the call of \<^verbatim>\<open>runAudit\<close>; \<^const>\<open>Inl\<close> is an exception it
  throws. Where the source reaches the end of \<^verbatim>\<open>main\<close> without a call of
  \<^verbatim>\<open>process.exit\<close>, the process ends with code 0. The last branch is the block under
  the comment \<^verbatim>\<open>// Exit non-zero if there are errors\<close>, which prints the errors and
  does not exit.
\<close>

definition main ::
  "CliArgs \<Rightarrow> (OrchestratorConfig \<Rightarrow> string + OrchestratorResult) \<Rightarrow> nat \<times> string list" where
  "main args run =
     (if arg_help args then (0, [])
      else case map_of VALID_AUDIT_TYPES (arg_type args) of
        None \<Rightarrow> (1, [])
      | Some auditType \<Rightarrow>
          (case map_of VALID_TRIGGER_SOURCES (arg_triggeredBy args) of
             None \<Rightarrow> (1, [])
           | Some triggeredBy \<Rightarrow>
               if \<not> arg_dryRun args \<and> env_convexUrl args = [] then (1, [])
               else if \<not> arg_dryRun args \<and> env_apiKey args = [] then (1, [])
               else (case run \<lparr> cfg_type = auditType, cfg_triggeredBy = triggeredBy,
                                 cfg_dryRun = arg_dryRun args \<rparr> of
                       Inl err \<Rightarrow> (1, [])
                     | Inr result \<Rightarrow>
                         if length (newCriticals (res_diff result)) > 0 \<and> \<not> arg_dryRun args
                         then (2, [])
                         else if length (res_errors result) > 0
                         then (0, map (\<lambda>e. ''  - '' @ e) (res_errors result))
                         else (0, []))))"

section \<open>Inputs used in the worked examples of the orchestrator\<close>

definition fixtureScannerFinding :: SecureClawFinding where
  "fixtureScannerFinding =
     \<lparr> sc_id = ''SC-020'', sc_name = ''Secrets in config'', sc_category = Some ''secrets_exposure'',
       sc_severity = High, sc_passed = False, sc_evidence = Some ''token in openclaw.json'',
       sc_remediation = None, sc_owaspMapping = None, sc_module = Some ''config'' \<rparr>"

definition fixtureScannerOutput :: "int \<Rightarrow> int \<Rightarrow> SecureClawFinding list \<Rightarrow> SecureClawOutput" where
  "fixtureScannerOutput run ok fs =
     \<lparr> out_version = ''2.1'', out_timestamp = ''2026-01-01T00:00:00.000Z'',
       out_hostname = ''localhost'', out_checksRun = run, out_checksPassed = ok,
       out_checksFailed = run - ok, out_findings = fs, out_riskScore = 0 \<rparr>"

definition fixtureCustomCheck :: CustomCheckResult where
  "fixtureCustomCheck =
     \<lparr> cc_checkId = ''custom.cron-injection'', cc_checkName = ''Cron injection'',
       cc_category = ''cron_injection'', cc_owaspCategory = ''ASI01'', cc_passed = True,
       cc_severity = High, cc_evidence = None, cc_remediation = None \<rparr>"

definition fixtureConfig :: OrchestratorConfig where
  "fixtureConfig = \<lparr> cfg_type = Full, cfg_triggeredBy = Manual, cfg_dryRun = False \<rparr>"

definition fixtureWorld :: "RawAuditOutput \<Rightarrow> World" where
  "fixtureWorld raw =
     \<lparr> w_startedAt = 1000, w_finishedAt = 1500, w_scVersion = ''2.1'', w_previous = None,
       w_raw = raw, w_convex = Persisted ''audit-1'', w_alertAt = 1600 \<rparr>"

definition fixtureArgs :: CliArgs where
  "fixtureArgs =
     \<lparr> arg_help = False, arg_type = ''full'', arg_triggeredBy = ''manual'', arg_dryRun = False,
       env_convexUrl = ''https://example.convex.site'', env_apiKey = ''key'' \<rparr>"

section \<open>Risk score: weights, ceiling and the fixed points of the specification\<close>

lemma weighted_counts:
  "sum_list (map (\<lambda>f. severityWeight (severity f)) fs) =
     int (length (filter (\<lambda>f. severity f = Critical) fs)) * 25 +
     int (length (filter (\<lambda>f. severity f = High) fs)) * 10 +
     int (length (filter (\<lambda>f. severity f = Medium) fs)) * 3 +
     int (length (filter (\<lambda>f. severity f = Low) fs)) * 1"
proof (induction fs)
  case Nil
  show ?case by simp
next
  case (Cons f fs)
  show ?case using Cons.IH by (cases "severity f") simp_all
qed

lemma computeRiskScore_spec: "computeRiskScore fs = specScore fs"
  unfolding computeRiskScore_def specScore_def Let_def
  by (simp only: weighted_counts)

lemma severityWeight_nonneg: "0 \<le> severityWeight s"
  by (cases s) simp_all

lemma specScore_range: "0 \<le> specScore fs \<and> specScore fs \<le> 100"
proof -
  have "0 \<le> sum_list (map (\<lambda>f. severityWeight (severity f)) (filter (\<lambda>f. \<not> passed f) fs))"
    by (rule sum_list_nonneg) (auto simp: severityWeight_nonneg)
  then show ?thesis by (simp add: specScore_def)
qed

text \<open>
  C3. The score of a finding list is the sum of the weights 25, 10, 3, 1, 0 over its
  failing findings, capped at 100. It therefore lies between 0 and 100, the empty list
  scores 0, one failing critical scores 25 and five failing criticals score 100.
\<close>

theorem C3_risk_score:
  "computeRiskScore fs =
     min 100 (sum_list (map (\<lambda>f. severityWeight (severity f)) (filter (\<lambda>f. \<not> passed f) fs)))
   \<and> 0 \<le> computeRiskScore fs \<and> computeRiskScore fs \<le> 100
   \<and> computeRiskScore [] = 0
   \<and> computeRiskScore [f\<lparr>passed := False, severity := Critical\<rparr>] = 25
   \<and> computeRiskScore (replicate 5 (f\<lparr>passed := False, severity := Critical\<rparr>)) = 100
   \<and> severityWeight Critical = 25 \<and> severityWeight High = 10 \<and> severityWeight Medium = 3
   \<and> severityWeight Low = 1 \<and> severityWeight Info = 0"
proof -
  have a: "computeRiskScore fs = specScore fs" by (rule computeRiskScore_spec)
  have b: "0 \<le> specScore fs \<and> specScore fs \<le> 100" by (rule specScore_range)
  have c: "computeRiskScore [] = 0" by (simp add: computeRiskScore_def)
  have d: "computeRiskScore [f\<lparr>passed := False, severity := Critical\<rparr>] = 25"
    by (simp add: computeRiskScore_def)
  have e: "computeRiskScore (replicate 5 (f\<lparr>passed := False, severity := Critical\<rparr>)) = 100"
    by (simp add: computeRiskScore_def)
  from a b c d e show ?thesis by (simp add: specScore_def)
qed

section \<open>The differ's loops as filters\<close>

lemma classifyCurrent_filter:
  "classifyCurrent K xs (nw, ps) =
     (nw @ filter (\<lambda>f. makeFindingKey f \<notin> K) xs, ps @ filter (\<lambda>f. makeFindingKey f \<in> K) xs)"
  by (induction xs arbitrary: nw ps) simp_all

lemma collectResolved_filter:
  "collectResolved K xs acc = acc @ filter (\<lambda>f. makeFindingKey f \<notin> K) xs"
  by (induction xs arbitrary: acc) simp_all

lemma makeFindingKey_eq_iff:
  "makeFindingKey f = makeFindingKey g \<longleftrightarrow> source f = source g \<and> checkId f = checkId g"
  by (cases "source f"; cases "source g") (simp_all add: makeFindingKey_def)

lemma key_in_keys_iff:
  "makeFindingKey f \<in> set (map makeFindingKey gs) \<longleftrightarrow>
     (\<exists>g. g \<in> set gs \<and> source g = source f \<and> checkId g = checkId f)"
proof
  assume "makeFindingKey f \<in> set (map makeFindingKey gs)"
  then obtain g where "g \<in> set gs" and "makeFindingKey f = makeFindingKey g" by auto
  then show "\<exists>g. g \<in> set gs \<and> source g = source f \<and> checkId g = checkId f"
    using makeFindingKey_eq_iff [of f g] by auto
next
  assume "\<exists>g. g \<in> set gs \<and> source g = source f \<and> checkId g = checkId f"
  then obtain g where g: "g \<in> set gs" and "source g = source f \<and> checkId g = checkId f"
    by blast
  then have "makeFindingKey f = makeFindingKey g" by (simp add: makeFindingKey_eq_iff)
  with g show "makeFindingKey f \<in> set (map makeFindingKey gs)" by auto
qed

lemma compute_None:
  "compute aid cur s None =
     \<lparr> auditId = aid, previousAuditId = None,
       newFindings = filter (\<lambda>f. \<not> passed f) cur,
       resolvedFindings = [], persistingFindings = [],
       riskScoreDelta = s,
       newCriticals = filter (\<lambda>f. severity f = Critical) (filter (\<lambda>f. \<not> passed f) cur) \<rparr>"
  by (simp add: compute_def)

lemma compute_Some:
  "compute aid cur s (Some p) =
     \<lparr> auditId = aid, previousAuditId = Some (prev_auditId p),
       newFindings =
         filter (\<lambda>f. makeFindingKey f \<notin> set (map makeFindingKey (filter (\<lambda>f. \<not> passed f) (prev_findings p))))
           (filter (\<lambda>f. \<not> passed f) cur),
       resolvedFindings =
         filter (\<lambda>f. makeFindingKey f \<notin> set (map makeFindingKey (filter (\<lambda>f. \<not> passed f) cur)))
           (filter (\<lambda>f. \<not> passed f) (prev_findings p)),
       persistingFindings =
         filter (\<lambda>f. makeFindingKey f \<in> set (map makeFindingKey (filter (\<lambda>f. \<not> passed f) (prev_findings p))))
           (filter (\<lambda>f. \<not> passed f) cur),
       riskScoreDelta = s - prev_hostRiskScore p,
       newCriticals =
         filter (\<lambda>f. severity f = Critical)
           (filter (\<lambda>f. makeFindingKey f \<notin> set (map makeFindingKey (filter (\<lambda>f. \<not> passed f) (prev_findings p))))
             (filter (\<lambda>f. \<not> passed f) cur)) \<rparr>"
  by (simp add: compute_def Let_def classifyCurrent_filter collectResolved_filter)

text \<open>
  C5. With no previous run, the new findings are the failing findings of the current
  list, nothing is resolved or persisting, and the score delta is the current score.
\<close>

theorem C5_no_previous_run:
  "newFindings (compute aid F s None) = filter (\<lambda>f. \<not> passed f) F
   \<and> resolvedFindings (compute aid F s None) = []
   \<and> persistingFindings (compute aid F s None) = []
   \<and> riskScoreDelta (compute aid F s None) = s"
  by (simp add: compute_def)

text \<open>
  C2. For every current list and every previous run (or none), no finding is both new
  and persisting, the new and persisting findings together are exactly the failing
  findings of the current list (as sets and with multiplicities), and no bucket of the
  diff holds a finding that passed.
\<close>

theorem C2_diff_partition:
  "set (newFindings (compute aid cur s prev)) \<inter> set (persistingFindings (compute aid cur s prev)) = {}
   \<and> set (newFindings (compute aid cur s prev)) \<union> set (persistingFindings (compute aid cur s prev))
       = {f. f \<in> set cur \<and> \<not> passed f}
   \<and> mset (newFindings (compute aid cur s prev)) + mset (persistingFindings (compute aid cur s prev))
       = mset (filter (\<lambda>f. \<not> passed f) cur)
   \<and> filter passed (newFindings (compute aid cur s prev) @ persistingFindings (compute aid cur s prev)
        @ resolvedFindings (compute aid cur s prev) @ newCriticals (compute aid cur s prev)) = []"
proof (cases prev)
  case None
  then show ?thesis by (auto simp: compute_None filter_empty_conv)
next
  case (Some p)
  define K where "K = set (map makeFindingKey (filter (\<lambda>f. \<not> passed f) (prev_findings p)))"
  define cf where "cf = filter (\<lambda>f. \<not> passed f) cur"
  have m: "mset (filter (\<lambda>f. makeFindingKey f \<notin> K) cf) + mset (filter (\<lambda>f. makeFindingKey f \<in> K) cf) = mset cf"
    by (induction cf) simp_all
  have a: "set (newFindings (compute aid cur s prev)) \<inter> set (persistingFindings (compute aid cur s prev)) = {}"
    using Some by (auto simp: compute_Some)
  have b: "set (newFindings (compute aid cur s prev)) \<union> set (persistingFindings (compute aid cur s prev))
       = {f. f \<in> set cur \<and> \<not> passed f}"
    using Some by (auto simp: compute_Some)
  have c: "mset (newFindings (compute aid cur s prev)) + mset (persistingFindings (compute aid cur s prev))
       = mset (filter (\<lambda>f. \<not> passed f) cur)"
    using Some m by (simp add: compute_Some K_def cf_def)
  have d: "filter passed (newFindings (compute aid cur s prev) @ persistingFindings (compute aid cur s prev)
        @ resolvedFindings (compute aid cur s prev) @ newCriticals (compute aid cur s prev)) = []"
    using Some by (auto simp: compute_Some filter_empty_conv)
  from a b c d show ?thesis by blast
qed

section \<open>Classification by key\<close>

lemma rewrite_key [simp]: "makeFindingKey (rewriteOtherFields t f) = makeFindingKey f"
  by (simp add: makeFindingKey_def rewriteOtherFields_def)

lemma rewrite_passed [simp]: "passed (rewriteOtherFields t f) = passed f"
  by (simp add: rewriteOtherFields_def)

lemma failing_map_rewrite:
  "filter (\<lambda>f. \<not> passed f) (map (\<lambda>f. rewriteOtherFields (t f) f) xs)
     = map (\<lambda>f. rewriteOtherFields (t f) f) (filter (\<lambda>f. \<not> passed f) xs)"
  by (induction xs) simp_all

lemma keys_map_rewrite:
  "map makeFindingKey (map (\<lambda>f. rewriteOtherFields (t f) f) xs) = map makeFindingKey xs"
  by (induction xs) simp_all

lemma key_filter_map_rewrite:
  "filter (\<lambda>f. makeFindingKey f \<notin> K) (map (\<lambda>f. rewriteOtherFields (t f) f) xs)
     = map (\<lambda>f. rewriteOtherFields (t f) f) (filter (\<lambda>f. makeFindingKey f \<notin> K) xs)"
  "filter (\<lambda>f. makeFindingKey f \<in> K) (map (\<lambda>f. rewriteOtherFields (t f) f) xs)
     = map (\<lambda>f. rewriteOtherFields (t f) f) (filter (\<lambda>f. makeFindingKey f \<in> K) xs)"
  by (induction xs) simp_all

lemma key_in_failing_keys_iff:
  "makeFindingKey f \<in> set (map makeFindingKey (filter (\<lambda>f. \<not> passed f) gs)) \<longleftrightarrow>
     (\<exists>g. g \<in> set gs \<and> \<not> passed g \<and> source g = source f \<and> checkId g = checkId f)"
  unfolding key_in_keys_iff by auto

lemma persisting_iff:
  "f \<in> set (persistingFindings (compute aid cur s prev)) \<longleftrightarrow>
     f \<in> set cur \<and> \<not> passed f \<and>
     (\<exists>p g. prev = Some p \<and> g \<in> set (prev_findings p) \<and> \<not> passed g
        \<and> source g = source f \<and> checkId g = checkId f)"
proof (cases prev)
  case None then show ?thesis by (simp add: compute_None)
next
  case (Some p)
  then show ?thesis by (auto simp: compute_Some key_in_failing_keys_iff simp del: set_map)
qed

lemma new_iff:
  "f \<in> set (newFindings (compute aid cur s prev)) \<longleftrightarrow>
     f \<in> set cur \<and> \<not> passed f \<and>
     \<not> (\<exists>p g. prev = Some p \<and> g \<in> set (prev_findings p) \<and> \<not> passed g
        \<and> source g = source f \<and> checkId g = checkId f)"
proof (cases prev)
  case None then show ?thesis by (simp add: compute_None)
next
  case (Some p)
  then show ?thesis by (auto simp: compute_Some key_in_failing_keys_iff simp del: set_map)
qed

lemma resolved_iff:
  "g \<in> set (resolvedFindings (compute aid cur s prev)) \<longleftrightarrow>
     (\<exists>p. prev = Some p \<and> g \<in> set (prev_findings p) \<and> \<not> passed g) \<and>
     \<not> (\<exists>f. f \<in> set cur \<and> \<not> passed f \<and> source f = source g \<and> checkId f = checkId g)"
proof (cases prev)
  case None then show ?thesis by (simp add: compute_None)
next
  case (Some p)
  then show ?thesis by (auto simp: compute_Some key_in_failing_keys_iff simp del: set_map)
qed

lemma current_rewrite:
  "newFindings (compute aid (map (\<lambda>f. rewriteOtherFields (t f) f) cur) s prev)
     = map (\<lambda>f. rewriteOtherFields (t f) f) (newFindings (compute aid cur s prev))
   \<and> persistingFindings (compute aid (map (\<lambda>f. rewriteOtherFields (t f) f) cur) s prev)
     = map (\<lambda>f. rewriteOtherFields (t f) f) (persistingFindings (compute aid cur s prev))
   \<and> resolvedFindings (compute aid (map (\<lambda>f. rewriteOtherFields (t f) f) cur) s prev)
     = resolvedFindings (compute aid cur s prev)"
proof (cases prev)
  case None then show ?thesis by (simp add: compute_None failing_map_rewrite)
next
  case (Some p)
  then show ?thesis
    by (simp add: compute_Some failing_map_rewrite keys_map_rewrite key_filter_map_rewrite
        del: set_map map_map filter_filter)
qed

lemma previous_rewrite:
  "newFindings (compute aid cur s (map_option (rewritePrevious (\<lambda>f. rewriteOtherFields (t f) f)) prev))
     = newFindings (compute aid cur s prev)
   \<and> persistingFindings (compute aid cur s (map_option (rewritePrevious (\<lambda>f. rewriteOtherFields (t f) f)) prev))
     = persistingFindings (compute aid cur s prev)
   \<and> resolvedFindings (compute aid cur s (map_option (rewritePrevious (\<lambda>f. rewriteOtherFields (t f) f)) prev))
     = map (\<lambda>f. rewriteOtherFields (t f) f) (resolvedFindings (compute aid cur s prev))"
proof (cases prev)
  case None then show ?thesis by (simp add: compute_None)
next
  case (Some p)
  then show ?thesis
    by (simp add: compute_Some rewritePrevious_def failing_map_rewrite keys_map_rewrite key_filter_map_rewrite
        del: set_map map_map filter_filter)
qed

text \<open>
  C4. A failing finding of the current run is persisting exactly when some failing
  finding of the previous run has its source and its checkId, and new exactly when none
  has; a failing finding of the previous run is resolved exactly when no failing finding
  of the current run has its source and checkId. Rewriting the other fields (checkName,
  the OWASP fields, category, severity, evidence, remediation) of the current findings,
  or of the previous findings, moves no finding to another bucket.
\<close>

theorem C4_classification_by_key:
  "(f \<in> set (persistingFindings (compute aid cur s prev)) \<longleftrightarrow>
      f \<in> set cur \<and> \<not> passed f \<and>
      (\<exists>p g. prev = Some p \<and> g \<in> set (prev_findings p) \<and> \<not> passed g
         \<and> source g = source f \<and> checkId g = checkId f))
   \<and> (f \<in> set (newFindings (compute aid cur s prev)) \<longleftrightarrow>
      f \<in> set cur \<and> \<not> passed f \<and>
      \<not> (\<exists>p g. prev = Some p \<and> g \<in> set (prev_findings p) \<and> \<not> passed g
         \<and> source g = source f \<and> checkId g = checkId f))
   \<and> (f \<in> set (resolvedFindings (compute aid cur s prev)) \<longleftrightarrow>
      (\<exists>p. prev = Some p \<and> f \<in> set (prev_findings p) \<and> \<not> passed f) \<and>
      \<not> (\<exists>g. g \<in> set cur \<and> \<not> passed g \<and> source g = source f \<and> checkId g = checkId f))
   \<and> newFindings (compute aid (map (\<lambda>f. rewriteOtherFields (t f) f) cur) s prev)
       = map (\<lambda>f. rewriteOtherFields (t f) f) (newFindings (compute aid cur s prev))
   \<and> persistingFindings (compute aid (map (\<lambda>f. rewriteOtherFields (t f) f) cur) s prev)
       = map (\<lambda>f. rewriteOtherFields (t f) f) (persistingFindings (compute aid cur s prev))
   \<and> resolvedFindings (compute aid (map (\<lambda>f. rewriteOtherFields (t f) f) cur) s prev)
       = resolvedFindings (compute aid cur s prev)
   \<and> newFindings (compute aid cur s (map_option (rewritePrevious (\<lambda>f. rewriteOtherFields (t f) f)) prev))
       = newFindings (compute aid cur s prev)
   \<and> persistingFindings (compute aid cur s (map_option (rewritePrevious (\<lambda>f. rewriteOtherFields (t f) f)) prev))
       = persistingFindings (compute aid cur s prev)
   \<and> resolvedFindings (compute aid cur s (map_option (rewritePrevious (\<lambda>f. rewriteOtherFields (t f) f)) prev))
       = map (\<lambda>f. rewriteOtherFields (t f) f) (resolvedFindings (compute aid cur s prev))"
  using persisting_iff [of f aid cur s prev] new_iff [of f aid cur s prev]
    resolved_iff [of f aid cur s prev] current_rewrite [of aid t cur s prev]
    previous_rewrite [of aid cur s t prev]
  by (simp only:)

section \<open>Evidence truncation\<close>

text \<open>
  The claim C7 as it is written says that a string of at most 500 characters is
  returned unchanged. The empty string has at most 500 characters and is turned into
  an absent evidence.
\<close>

theorem C7_empty_evidence_becomes_absent:
  "length ('''' :: string) \<le> 500 \<and> truncateEvidence (Some '''') = None
   \<and> truncateEvidence (Some '''') \<noteq> Some ''''"
  by (simp add: truncateEvidence_def)

text \<open>
  C7, amended. An absent evidence and the empty string normalise to an absent
  evidence. A non-empty string of at most 500 characters is returned unchanged. A
  longer string becomes its first 500 characters followed by the fixed marker of 12
  characters, 512 characters in all. Both normalisers store exactly the result of this
  one truncation in the evidence field.
\<close>

theorem C7_truncate_evidence:
  "truncateEvidence None = None
   \<and> truncateEvidence (Some []) = None
   \<and> (e \<noteq> [] \<and> length e \<le> 500 \<longrightarrow> truncateEvidence (Some e) = Some e)
   \<and> (500 < length e \<longrightarrow>
        truncateEvidence (Some e) = Some (take 500 e @ TRUNCATION_MARKER)
        \<and> length (take 500 e @ TRUNCATION_MARKER) = 512
        \<and> length (take 500 e) = 500)
   \<and> length TRUNCATION_MARKER = 12
   \<and> evidence (normalizeSecureClawFinding f) = truncateEvidence (sc_evidence f)
   \<and> evidence (normalizeCustomCheckResult r) = truncateEvidence (cc_evidence r)"
  by (auto simp: truncateEvidence_def EVIDENCE_MAX_CHARS_def TRUNCATION_MARKER_def
      normalizeSecureClawFinding_def normalizeCustomCheckResult_def Let_def)

theorem C7_truncate_evidence_witness:
  "truncateEvidence (Some ''0123456789'') = Some ''0123456789''
   \<and> truncateEvidence (Some (replicate 600 (CHR ''a'')))
       = Some (replicate 500 (CHR ''a'') @ TRUNCATION_MARKER)
   \<and> length (replicate 500 (CHR ''a'') @ TRUNCATION_MARKER) = 512"
  using C7_truncate_evidence [of "''0123456789''"]
    C7_truncate_evidence [of "replicate 600 (CHR ''a'')"]
  by simp

section \<open>OWASP category inference\<close>

lemma table_values:
  "map_of SECURECLAW_OWASP_MAP k = Some v \<Longrightarrow> v \<in> set OWASP_CATEGORIES"
  "map_of CATEGORY_OWASP_MAP k = Some v \<Longrightarrow> v \<in> set OWASP_CATEGORIES"
  by (auto simp: SECURECLAW_OWASP_MAP_def CATEGORY_OWASP_MAP_def OWASP_CATEGORIES_def
      split: if_splits)

lemma default_category: "''ASI03'' \<in> set OWASP_CATEGORIES"
  by (simp add: OWASP_CATEGORIES_def)

text \<open>
  Steps (1), (3) and (4) stay inside the ten categories: a finding with no
  \<^verbatim>\<open>owaspMapping\<close> field always resolves to one of them, and an ID of the table
  wins over everything else.
\<close>

lemma infer_without_mapping:
  "sc_owaspMapping f = None \<Longrightarrow> inferOWASPFromSecureClawFinding f \<in> set OWASP_CATEGORIES"
  by (auto simp: inferOWASPFromSecureClawFinding_def Let_def table_values default_category
      split: option.splits)

lemma infer_id_first:
  "map_of SECURECLAW_OWASP_MAP (sc_id f) = Some c \<Longrightarrow> inferOWASPFromSecureClawFinding f = c"
  by (simp add: inferOWASPFromSecureClawFinding_def)

text \<open>
  C1. The claim says the result is one of the ten categories for every finding. Step
  (2) accepts any \<^verbatim>\<open>owaspMapping\<close> that, upper-cased and without white space, starts
  with \<^verbatim>\<open>ASI\<close> and has at most five characters. For a finding whose ID is not in the
  table and whose \<^verbatim>\<open>owaspMapping\<close> is \<^verbatim>\<open>ASI99\<close>, the function returns
  \<^verbatim>\<open>ASI99\<close>, which is none of the ten categories and has no entry in
  \<^const>\<open>OWASP_NAMES\<close>.
\<close>

theorem C1_owasp_mapping_outside_categories:
  "inferOWASPFromSecureClawFinding
     \<lparr> sc_id = ''SC-999'', sc_name = ''Unlisted check'', sc_category = Some ''misc'',
       sc_severity = Low, sc_passed = False, sc_evidence = None, sc_remediation = None,
       sc_owaspMapping = Some ''ASI99'', sc_module = None \<rparr> = ''ASI99''
   \<and> ''ASI99'' \<notin> set OWASP_CATEGORIES
   \<and> map_of OWASP_NAMES ''ASI99'' = None"
  by (simp add: inferOWASPFromSecureClawFinding_def SECURECLAW_OWASP_MAP_def
      toUpperCase_def removeWhitespace_def isWhitespace_def startsWith_def
      OWASP_CATEGORIES_def OWASP_NAMES_def)

section \<open>The reporter's new-finding flag\<close>

lemma batchLoop_concat_aux: "concat (batchLoop i bodies) = drop i bodies"
proof (induction i bodies rule: batchLoop.induct)
  case (1 i bodies)
  show ?case
  proof (cases "i < length bodies")
    case True
    have "concat (batchLoop i bodies)
            = take BATCH_SIZE (drop i bodies) @ concat (batchLoop (i + BATCH_SIZE) bodies)"
      using True by (subst batchLoop.simps) simp
    also have "\<dots> = take BATCH_SIZE (drop i bodies) @ drop (i + BATCH_SIZE) bodies"
      using 1 True by simp
    also have "\<dots> = take BATCH_SIZE (drop i bodies) @ drop BATCH_SIZE (drop i bodies)"
      by (simp add: add.commute)
    also have "\<dots> = drop i bodies"
      by (rule append_take_drop_id)
    finally show ?thesis .
  next
    case False
    then show ?thesis by (subst batchLoop.simps) simp
  qed
qed

lemma isNew_body: "isNew (upsertBody aid ids now f) \<longleftrightarrow> checkId f \<in> ids"
  by (simp add: upsertBody_def)


text \<open>
  C10. The reporter posts one body per failing finding, in order, all of them, in
  batches. A body's \<^verbatim>\<open>isNew\<close> flag is true exactly when the finding's checkId is
  the checkId of some finding in \<^verbatim>\<open>diff.newFindings\<close>; the source is not compared.
  So of two failing findings with one checkId and different sources, one new and the
  other not, both are posted with \<^verbatim>\<open>isNew = true\<close>.
\<close>

theorem C10_isNew_by_checkId_only:
  "map isNew (findingBodies aid fs d now)
     = map (\<lambda>f. checkId f \<in> set (map checkId (newFindings d))) (filter (\<lambda>f. \<not> passed f) fs)
   \<and> map checkId (findingBodies aid fs d now) = map checkId (filter (\<lambda>f. \<not> passed f) fs)
   \<and> map source (findingBodies aid fs d now) = map source (filter (\<lambda>f. \<not> passed f) fs)
   \<and> concat (upsertFindings aid fs d now) = findingBodies aid fs d now
   \<and> (fa \<in> set fs \<and> fb \<in> set fs \<and> \<not> passed fa \<and> \<not> passed fb
        \<and> checkId fa = checkId fb \<and> source fa \<noteq> source fb
        \<and> fa \<in> set (newFindings d) \<and> fb \<notin> set (newFindings d) \<longrightarrow>
      upsertBody aid (set (map checkId (newFindings d))) now fa \<in> set (findingBodies aid fs d now)
      \<and> upsertBody aid (set (map checkId (newFindings d))) now fb \<in> set (findingBodies aid fs d now)
      \<and> isNew (upsertBody aid (set (map checkId (newFindings d))) now fa)
      \<and> isNew (upsertBody aid (set (map checkId (newFindings d))) now fb))"
proof -
  have bodies: "map isNew (findingBodies aid fs d now)
     = map (\<lambda>f. checkId f \<in> set (map checkId (newFindings d))) (filter (\<lambda>f. \<not> passed f) fs)
   \<and> map checkId (findingBodies aid fs d now) = map checkId (filter (\<lambda>f. \<not> passed f) fs)
   \<and> map source (findingBodies aid fs d now) = map source (filter (\<lambda>f. \<not> passed f) fs)
   \<and> concat (upsertFindings aid fs d now) = findingBodies aid fs d now"
    by (simp add: findingBodies_def upsertFindings_def batchLoop_concat_aux upsertBody_def
        Let_def comp_def)
  have pair: "upsertBody aid (set (map checkId (newFindings d))) now fa \<in> set (findingBodies aid fs d now)
      \<and> upsertBody aid (set (map checkId (newFindings d))) now fb \<in> set (findingBodies aid fs d now)
      \<and> isNew (upsertBody aid (set (map checkId (newFindings d))) now fa)
      \<and> isNew (upsertBody aid (set (map checkId (newFindings d))) now fb)"
    if a: "fa \<in> set fs" "fb \<in> set fs" "\<not> passed fa" "\<not> passed fb"
      "checkId fa = checkId fb" "fa \<in> set (newFindings d)"
  proof -
    have "checkId fa \<in> set (map checkId (newFindings d))" using a(6) by simp
    moreover have "checkId fb \<in> set (map checkId (newFindings d))"
      using a(5,6) by (metis image_eqI set_map)
    ultimately show ?thesis
      using a(1-4) by (simp add: findingBodies_def isNew_body Let_def)
  qed
  from bodies pair show ?thesis by blast
qed

theorem C10_isNew_by_checkId_only_witness:
  "fixtureFinding\<lparr>source := Secureclaw\<rparr> \<in> set [fixtureFinding\<lparr>source := Secureclaw\<rparr>, fixtureFinding]
   \<and> source (fixtureFinding\<lparr>source := Secureclaw\<rparr>) \<noteq> source fixtureFinding
   \<and> checkId (fixtureFinding\<lparr>source := Secureclaw\<rparr>) = checkId fixtureFinding
   \<and> newFindings (compute ''a2'' [fixtureFinding\<lparr>source := Secureclaw\<rparr>, fixtureFinding] 50
         (Some \<lparr> prev_auditId = ''a1'', prev_findings = [fixtureFinding], prev_hostRiskScore = 25 \<rparr>))
       = [fixtureFinding\<lparr>source := Secureclaw\<rparr>]
   \<and> isNew (upsertBody ''a2'' (set (map checkId (newFindings
        (compute ''a2'' [fixtureFinding\<lparr>source := Secureclaw\<rparr>, fixtureFinding] 50
         (Some \<lparr> prev_auditId = ''a1'', prev_findings = [fixtureFinding], prev_hostRiskScore = 25 \<rparr>))))) 7
        fixtureFinding)"
proof -
  let ?fa = "fixtureFinding\<lparr>source := Secureclaw\<rparr>"
  let ?fs = "[?fa, fixtureFinding]"
  let ?d = "compute ''a2'' ?fs 50
         (Some \<lparr> prev_auditId = ''a1'', prev_findings = [fixtureFinding], prev_hostRiskScore = 25 \<rparr>)"
  have n: "newFindings ?d = [?fa]"
    by (simp add: compute_Some fixtureFinding_def makeFindingKey_def)
  have p: "\<not> passed fixtureFinding" "source fixtureFinding = Custom"
    by (simp_all add: fixtureFinding_def)
  have ne: "fixtureFinding \<noteq> ?fa"
    by (simp add: fixtureFinding_def)
  have hyp: "?fa \<in> set ?fs \<and> fixtureFinding \<in> set ?fs \<and> \<not> passed ?fa \<and> \<not> passed fixtureFinding
        \<and> checkId ?fa = checkId fixtureFinding \<and> source ?fa \<noteq> source fixtureFinding
        \<and> ?fa \<in> set (newFindings ?d) \<and> fixtureFinding \<notin> set (newFindings ?d)"
    using n p ne by simp
  have "isNew (upsertBody ''a2'' (set (map checkId (newFindings ?d))) 7 fixtureFinding)"
    using C10_isNew_by_checkId_only [where fa = ?fa and fb = fixtureFinding and fs = ?fs
        and aid = "''a2''" and now = 7 and d = ?d] hyp
    by blast
  with hyp n show ?thesis by simp
qed

section \<open>Alerting on new critical findings\<close>

lemma setValues_set: "set (setValues seen xs) = set seen \<union> set xs"
  by (induction xs arbitrary: seen) auto

lemma setValues_distinct: "distinct seen \<Longrightarrow> distinct (setValues seen xs)"
  by (induction xs arbitrary: seen) auto

lemma newCriticals_compute:
  "newCriticals (compute aid cur s prev)
     = filter (\<lambda>f. severity f = Critical) (newFindings (compute aid cur s prev))"
  by (cases prev) (simp_all add: compute_None compute_Some)

lemma newCriticals_iff:
  "f \<in> set (newCriticals (compute aid cur s prev)) \<longleftrightarrow>
     f \<in> set cur \<and> \<not> passed f \<and> severity f = Critical \<and>
     \<not> (\<exists>p g. prev = Some p \<and> g \<in> set (prev_findings p) \<and> \<not> passed g
        \<and> source g = source f \<and> checkId g = checkId f)"
  unfolding newCriticals_compute using new_iff [of f aid cur s prev] by auto

lemma alert_cases:
  "alertOnCriticals d now =
     (if newCriticals d = [] then []
      else [\<lparr> eventType = ''new_critical_finding'', ev_severity = Critical,
              ev_source = ''secureclaw'', sourceId = Some (auditId d),
              message = buildAlertMessage (newCriticals d) (auditId d),
              acknowledged = False, createdAt = now \<rparr>])"
  by (simp add: alertOnCriticals_def)

lemma message_parts:
  "buildAlertMessage cs aid =
     SIREN @ '' '' @ numberToString (length cs) @ '' new CRITICAL finding''
       @ (if length cs \<noteq> 1 then ''s'' else []) @ '' in audit '' @ aid @ '' '' @ EMDASH
       @ '' Categories: '' @ join (setValues [] (map owaspCategory cs)) '', '' @ '' '' @ EMDASH
       @ '' Checks: '' @ take 200 (join (map checkName cs) '', '')"
  by (simp add: buildAlertMessage_def Let_def)

lemma alert_iff_new_critical:
  "alertOnCriticals (compute aid cur s prev) now \<noteq> [] \<longleftrightarrow>
     (\<exists>f. f \<in> set cur \<and> \<not> passed f \<and> severity f = Critical \<and>
        \<not> (\<exists>p g. prev = Some p \<and> g \<in> set (prev_findings p) \<and> \<not> passed g
           \<and> source g = source f \<and> checkId g = checkId f))"
proof -
  have "alertOnCriticals (compute aid cur s prev) now \<noteq> [] \<longleftrightarrow>
          newCriticals (compute aid cur s prev) \<noteq> []"
    by (simp add: alert_cases)
  also have "\<dots> \<longleftrightarrow> (\<exists>f. f \<in> set (newCriticals (compute aid cur s prev)))"
    by (cases "newCriticals (compute aid cur s prev)") auto
  finally show ?thesis
    unfolding newCriticals_iff .
qed

text \<open>
  The claim C6 as it is written says that the message of the one event aggregates all
  new-critical check names. The message holds the comma-joined check names cut by
  \<^verbatim>\<open>slice(0, 200)\<close>: with two new criticals, the first with a check name of 200
  characters, the name of the second does not occur in the message.
\<close>

theorem C6_long_check_names_are_cut:
  "newCriticals (compute ''a1''
      [fixtureFinding\<lparr>checkName := replicate 200 (CHR ''x'')\<rparr>,
       fixtureFinding\<lparr>checkId := ''custom.cron-injection'', checkName := ''Cron injection''\<rparr>] 50 None)
     = [fixtureFinding\<lparr>checkName := replicate 200 (CHR ''x'')\<rparr>,
        fixtureFinding\<lparr>checkId := ''custom.cron-injection'', checkName := ''Cron injection''\<rparr>]
   \<and> map message (alertOnCriticals (compute ''a1''
      [fixtureFinding\<lparr>checkName := replicate 200 (CHR ''x'')\<rparr>,
       fixtureFinding\<lparr>checkId := ''custom.cron-injection'', checkName := ''Cron injection''\<rparr>] 50 None) 0)
     = [SIREN @ '' 2 new CRITICAL findings in audit a1 '' @ EMDASH @ '' Categories: ASI03 '' @ EMDASH
         @ '' Checks: '' @ replicate 200 (CHR ''x'')]
   \<and> \<not> sublist ''Cron injection''
        (SIREN @ '' 2 new CRITICAL findings in audit a1 '' @ EMDASH @ '' Categories: ASI03 '' @ EMDASH
         @ '' Checks: '' @ replicate 200 (CHR ''x''))"
proof -
  let ?cs = "[fixtureFinding\<lparr>checkName := replicate 200 (CHR ''x'')\<rparr>,
       fixtureFinding\<lparr>checkId := ''custom.cron-injection'', checkName := ''Cron injection''\<rparr>]"
  let ?m = "SIREN @ '' 2 new CRITICAL findings in audit a1 '' @ EMDASH @ '' Categories: ASI03 '' @ EMDASH
         @ '' Checks: '' @ replicate 200 (CHR ''x'')"
  have a: "newCriticals (compute ''a1'' ?cs 50 None) = ?cs"
    by (simp add: compute_None fixtureFinding_def)
  have names: "map checkName ?cs = [replicate 200 (CHR ''x''), ''Cron injection'']"
    by simp
  have cats: "map owaspCategory ?cs = [''ASI03'', ''ASI03'']"
    by (simp add: fixtureFinding_def)
  have b: "buildAlertMessage ?cs ''a1'' = ?m"
    unfolding message_parts names cats by (simp add: numberToString.simps)
  have aid: "auditId (compute ''a1'' ?cs 50 None) = ''a1''"
    by (simp add: compute_None)
  have c: "map message (alertOnCriticals (compute ''a1'' ?cs 50 None) 0) = [?m]"
    unfolding alert_cases a aid b by simp
  have "CHR ''j'' \<notin> set ?m" by (simp add: SIREN_def EMDASH_def)
  moreover have "CHR ''j'' \<in> set ''Cron injection''" by simp
  ultimately have d: "\<not> sublist ''Cron injection'' ?m"
    using set_mono_sublist by blast
  from a c d show ?thesis by blast
qed

text \<open>
  C6, amended. An alert event is posted exactly when \<^verbatim>\<open>newCriticals\<close> is not empty,
  and then it is one event, of severity critical, whose message holds the number of new
  criticals, the audit ID, every distinct OWASP category of the new criticals once, and
  the first 200 characters of the comma-joined check names of the new criticals.
  \<^verbatim>\<open>newCriticals\<close> is the critical part of \<^verbatim>\<open>newFindings\<close>. A finding failing in
  the current run whose source and checkId are those of a failing finding of the
  previous run is persisting and is not in \<^verbatim>\<open>newCriticals\<close>; the differ's result
  raises an alert exactly when some failing critical finding of the current run has no
  such counterpart.
\<close>

theorem C6_alert_on_new_criticals:
  "(alertOnCriticals d now \<noteq> [] \<longleftrightarrow> newCriticals d \<noteq> [])
   \<and> alertOnCriticals d now =
       (if newCriticals d = [] then []
        else [\<lparr> eventType = ''new_critical_finding'', ev_severity = Critical,
                ev_source = ''secureclaw'', sourceId = Some (auditId d),
                message = buildAlertMessage (newCriticals d) (auditId d),
                acknowledged = False, createdAt = now \<rparr>])
   \<and> length (alertOnCriticals d now) \<le> 1
   \<and> buildAlertMessage cs a =
       SIREN @ '' '' @ numberToString (length cs) @ '' new CRITICAL finding''
         @ (if length cs \<noteq> 1 then ''s'' else []) @ '' in audit '' @ a @ '' '' @ EMDASH
         @ '' Categories: '' @ join (setValues [] (map owaspCategory cs)) '', '' @ '' '' @ EMDASH
         @ '' Checks: '' @ take 200 (join (map checkName cs) '', '')
   \<and> set (setValues [] (map owaspCategory cs)) = set (map owaspCategory cs)
   \<and> distinct (setValues [] (map owaspCategory cs))
   \<and> newCriticals (compute aid cur s prev)
       = filter (\<lambda>f. severity f = Critical) (newFindings (compute aid cur s prev))
   \<and> (f \<in> set cur \<and> \<not> passed f \<and>
        (\<exists>p g. prev = Some p \<and> g \<in> set (prev_findings p) \<and> \<not> passed g
           \<and> source g = source f \<and> checkId g = checkId f) \<longrightarrow>
        f \<in> set (persistingFindings (compute aid cur s prev))
        \<and> f \<notin> set (newCriticals (compute aid cur s prev)))
   \<and> (alertOnCriticals (compute aid cur s prev) now \<noteq> [] \<longleftrightarrow>
        (\<exists>f. f \<in> set cur \<and> \<not> passed f \<and> severity f = Critical \<and>
           \<not> (\<exists>p g. prev = Some p \<and> g \<in> set (prev_findings p) \<and> \<not> passed g
              \<and> source g = source f \<and> checkId g = checkId f)))"
proof -
  have a: "alertOnCriticals d now \<noteq> [] \<longleftrightarrow> newCriticals d \<noteq> []"
    by (simp add: alert_cases)
  have b: "length (alertOnCriticals d now) \<le> 1"
    by (simp add: alert_cases)
  have c: "set (setValues [] (map owaspCategory cs)) = set (map owaspCategory cs)"
    "distinct (setValues [] (map owaspCategory cs))"
    by (simp_all add: setValues_set setValues_distinct)
  have e: "f \<in> set cur \<and> \<not> passed f \<and>
        (\<exists>p g. prev = Some p \<and> g \<in> set (prev_findings p) \<and> \<not> passed g
           \<and> source g = source f \<and> checkId g = checkId f) \<longrightarrow>
        f \<in> set (persistingFindings (compute aid cur s prev))
        \<and> f \<notin> set (newCriticals (compute aid cur s prev))"
    unfolding persisting_iff newCriticals_iff by blast
  show ?thesis
    apply (intro conjI)
            apply (rule a)
           apply (rule alert_cases)
          apply (rule b)
         apply (rule message_parts)
        apply (rule c(1))
       apply (rule c(2))
      apply (rule newCriticals_compute)
     apply (rule e)
    apply (rule alert_iff_new_critical)
    done
qed

theorem C6_alert_on_new_criticals_witness:
  "length (alertOnCriticals (compute ''a1'' [fixtureFinding] 25 None) 0) = 1
   \<and> \<not> passed (fixtureFinding\<lparr>evidence := Some ''still there''\<rparr>)
   \<and> severity (fixtureFinding\<lparr>evidence := Some ''still there''\<rparr>) = Critical
   \<and> fixtureFinding\<lparr>evidence := Some ''still there''\<rparr>
        \<in> set (persistingFindings (compute ''a2'' [fixtureFinding\<lparr>evidence := Some ''still there''\<rparr>] 25
             (Some \<lparr> prev_auditId = ''a1'', prev_findings = [fixtureFinding], prev_hostRiskScore = 25 \<rparr>)))
   \<and> fixtureFinding\<lparr>evidence := Some ''still there''\<rparr>
        \<notin> set (newCriticals (compute ''a2'' [fixtureFinding\<lparr>evidence := Some ''still there''\<rparr>] 25
             (Some \<lparr> prev_auditId = ''a1'', prev_findings = [fixtureFinding], prev_hostRiskScore = 25 \<rparr>)))
   \<and> alertOnCriticals (compute ''a2'' [fixtureFinding\<lparr>evidence := Some ''still there''\<rparr>] 25
             (Some \<lparr> prev_auditId = ''a1'', prev_findings = [fixtureFinding], prev_hostRiskScore = 25 \<rparr>)) 1 = []"
proof -
  let ?f = "fixtureFinding\<lparr>evidence := Some ''still there''\<rparr>"
  let ?p = "\<lparr> prev_auditId = ''a1'', prev_findings = [fixtureFinding], prev_hostRiskScore = 25 \<rparr>"
  note inst = C6_alert_on_new_criticals [where f = ?f and cur = "[?f]" and prev = "Some ?p"
      and aid = "''a2''" and s = 25 and now = 1
      and d = "compute ''a1'' [fixtureFinding] 25 None"]
  have facts: "\<not> passed ?f" "severity ?f = Critical" "\<not> passed fixtureFinding"
    by (simp_all add: fixtureFinding_def)
  have hyp: "?f \<in> set [?f] \<and> \<not> passed ?f \<and>
        (\<exists>p g. Some ?p = Some p \<and> g \<in> set (prev_findings p) \<and> \<not> passed g
           \<and> source g = source ?f \<and> checkId g = checkId ?f)"
    using facts by simp
  have pers: "?f \<in> set (persistingFindings (compute ''a2'' [?f] 25 (Some ?p)))
        \<and> ?f \<notin> set (newCriticals (compute ''a2'' [?f] 25 (Some ?p)))"
    using inst hyp by blast
  have none: "alertOnCriticals (compute ''a2'' [?f] 25 (Some ?p)) 1 = []"
    using inst facts by simp
  have run1: "newCriticals (compute ''a1'' [fixtureFinding] 25 None) \<noteq> []"
    by (simp add: compute_None fixtureFinding_def)
  have one: "length (alertOnCriticals (compute ''a1'' [fixtureFinding] 25 None) 0) = 1"
    using run1 by (simp add: alert_cases)
  from one pers none facts show ?thesis by simp
qed

section \<open>The aggregates of the summary\<close>

lemma runAudit_findings: "res_findings (fst (runAudit config w)) = parse (w_raw w)"
  by (simp add: runAudit_def Let_def split: ConvexOutcome.splits)

lemma runAudit_summary:
  "res_summary (fst (runAudit config w)) =
     \<lparr> s_type = cfg_type config,
       s_triggeredBy = cfg_triggeredBy config,
       s_secureclawVersion = w_scVersion w,
       s_checksRun = getTotalChecksRun (w_raw w),
       s_checksPassed = getTotalChecksPassed (w_raw w),
       s_checksFailed = getTotalChecksRun (w_raw w) - getTotalChecksPassed (w_raw w),
       s_criticalCount = critical (countBySeverity (parse (w_raw w))),
       s_highCount = high (countBySeverity (parse (w_raw w))),
       s_mediumCount = medium (countBySeverity (parse (w_raw w))),
       s_lowCount = low (countBySeverity (parse (w_raw w))),
       s_infoCount = info (countBySeverity (parse (w_raw w))),
       s_hostRiskScore = computeRiskScore (parse (w_raw w)),
       s_newFindingsCount = int (length (newFindings (compute ''pending'' (parse (w_raw w))
          (computeRiskScore (parse (w_raw w))) (if cfg_dryRun config then None else w_previous w)))),
       s_resolvedFindingsCount = int (length (resolvedFindings (compute ''pending'' (parse (w_raw w))
          (computeRiskScore (parse (w_raw w))) (if cfg_dryRun config then None else w_previous w)))),
       s_riskScoreDelta = riskScoreDelta (compute ''pending'' (parse (w_raw w))
          (computeRiskScore (parse (w_raw w))) (if cfg_dryRun config then None else w_previous w)),
       s_startedAt = w_startedAt w,
       s_finishedAt = w_finishedAt w,
       s_durationMs = w_finishedAt w - w_startedAt w \<rparr>"
  by (simp add: runAudit_def Let_def split: ConvexOutcome.splits)

lemma passed_normalize:
  "passed (normalizeSecureClawFinding f) = sc_passed f"
  "passed (normalizeCustomCheckResult r) = cc_passed r"
  by (simp_all add: normalizeSecureClawFinding_def normalizeCustomCheckResult_def Let_def)

lemma length_parse:
  "int (length (parse raw)) =
     (case raw_secureclaw raw of None \<Rightarrow> 0 | Some out \<Rightarrow> int (length (out_findings out)))
     + int (length (raw_customChecks raw))"
  by (simp add: parse_def split: option.splits)

lemma length_passed_parse:
  "int (length (filter passed (parse raw))) =
     (case raw_secureclaw raw of None \<Rightarrow> 0
      | Some out \<Rightarrow> int (length (filter sc_passed (out_findings out))))
     + int (length (filter cc_passed (raw_customChecks raw)))"
  by (simp add: parse_def filter_map comp_def passed_normalize split: option.splits)

lemma countBySeverity_fields:
  "critical (countBySeverity fs) = int (length (filter (\<lambda>f. \<not> passed f \<and> severity f = Critical) fs))"
  "high (countBySeverity fs) = int (length (filter (\<lambda>f. \<not> passed f \<and> severity f = High) fs))"
  "medium (countBySeverity fs) = int (length (filter (\<lambda>f. \<not> passed f \<and> severity f = Medium) fs))"
  "low (countBySeverity fs) = int (length (filter (\<lambda>f. \<not> passed f \<and> severity f = Low) fs))"
  "info (countBySeverity fs) = int (length (filter (\<lambda>f. \<not> passed f \<and> severity f = Info) fs))"
  by (simp_all add: countBySeverity_def Let_def conj_commute)

text \<open>
  C8, amended. In the summary of every run, \<^verbatim>\<open>checksRun\<close> is the scanner's reported
  \<^verbatim>\<open>checksRun\<close> (0 without scanner output) plus the number of custom results,
  \<^verbatim>\<open>checksPassed\<close> is the scanner's reported \<^verbatim>\<open>checksPassed\<close> plus the number of
  custom results that passed, \<^verbatim>\<open>checksFailed\<close> is their difference, each severity
  count is the number of failing findings of that severity, and \<^verbatim>\<open>hostRiskScore\<close> is
  the score of the findings. When the scanner's output is absent, or its two reported
  counts agree with the findings it lists, \<^verbatim>\<open>checksRun\<close> is the number of normalized
  findings and \<^verbatim>\<open>checksPassed\<close> the number of them that passed.
\<close>

theorem C8_summary_aggregates:
  "res_findings (fst (runAudit config w)) = parse (w_raw w)
   \<and> s_checksRun (res_summary (fst (runAudit config w)))
       = (case raw_secureclaw (w_raw w) of None \<Rightarrow> 0 | Some out \<Rightarrow> out_checksRun out)
         + int (length (raw_customChecks (w_raw w)))
   \<and> s_checksPassed (res_summary (fst (runAudit config w)))
       = (case raw_secureclaw (w_raw w) of None \<Rightarrow> 0 | Some out \<Rightarrow> out_checksPassed out)
         + int (length (filter cc_passed (raw_customChecks (w_raw w))))
   \<and> s_checksFailed (res_summary (fst (runAudit config w)))
       = s_checksRun (res_summary (fst (runAudit config w)))
         - s_checksPassed (res_summary (fst (runAudit config w)))
   \<and> s_criticalCount (res_summary (fst (runAudit config w)))
       = int (length (filter (\<lambda>f. \<not> passed f \<and> severity f = Critical) (parse (w_raw w))))
   \<and> s_highCount (res_summary (fst (runAudit config w)))
       = int (length (filter (\<lambda>f. \<not> passed f \<and> severity f = High) (parse (w_raw w))))
   \<and> s_mediumCount (res_summary (fst (runAudit config w)))
       = int (length (filter (\<lambda>f. \<not> passed f \<and> severity f = Medium) (parse (w_raw w))))
   \<and> s_lowCount (res_summary (fst (runAudit config w)))
       = int (length (filter (\<lambda>f. \<not> passed f \<and> severity f = Low) (parse (w_raw w))))
   \<and> s_infoCount (res_summary (fst (runAudit config w)))
       = int (length (filter (\<lambda>f. \<not> passed f \<and> severity f = Info) (parse (w_raw w))))
   \<and> s_hostRiskScore (res_summary (fst (runAudit config w))) = computeRiskScore (parse (w_raw w))
   \<and> ((case raw_secureclaw (w_raw w) of
          None \<Rightarrow> True
        | Some out \<Rightarrow> out_checksRun out = int (length (out_findings out))
            \<and> out_checksPassed out = int (length (filter sc_passed (out_findings out))))
        \<longrightarrow>
        s_checksRun (res_summary (fst (runAudit config w))) = int (length (parse (w_raw w)))
        \<and> s_checksPassed (res_summary (fst (runAudit config w)))
            = int (length (filter passed (parse (w_raw w)))))"
proof -
  have run: "s_checksRun (res_summary (fst (runAudit config w)))
       = (case raw_secureclaw (w_raw w) of None \<Rightarrow> 0 | Some out \<Rightarrow> out_checksRun out)
         + int (length (raw_customChecks (w_raw w)))"
    by (simp add: runAudit_summary getTotalChecksRun_def)
  have pas: "s_checksPassed (res_summary (fst (runAudit config w)))
       = (case raw_secureclaw (w_raw w) of None \<Rightarrow> 0 | Some out \<Rightarrow> out_checksPassed out)
         + int (length (filter cc_passed (raw_customChecks (w_raw w))))"
    by (simp add: runAudit_summary getTotalChecksPassed_def)
  have fai: "s_checksFailed (res_summary (fst (runAudit config w)))
       = s_checksRun (res_summary (fst (runAudit config w)))
         - s_checksPassed (res_summary (fst (runAudit config w)))"
    by (simp add: runAudit_summary)
  have sev: "s_criticalCount (res_summary (fst (runAudit config w)))
       = int (length (filter (\<lambda>f. \<not> passed f \<and> severity f = Critical) (parse (w_raw w))))"
    "s_highCount (res_summary (fst (runAudit config w)))
       = int (length (filter (\<lambda>f. \<not> passed f \<and> severity f = High) (parse (w_raw w))))"
    "s_mediumCount (res_summary (fst (runAudit config w)))
       = int (length (filter (\<lambda>f. \<not> passed f \<and> severity f = Medium) (parse (w_raw w))))"
    "s_lowCount (res_summary (fst (runAudit config w)))
       = int (length (filter (\<lambda>f. \<not> passed f \<and> severity f = Low) (parse (w_raw w))))"
    "s_infoCount (res_summary (fst (runAudit config w)))
       = int (length (filter (\<lambda>f. \<not> passed f \<and> severity f = Info) (parse (w_raw w))))"
    by (simp_all add: runAudit_summary countBySeverity_fields)
  have sco: "s_hostRiskScore (res_summary (fst (runAudit config w))) = computeRiskScore (parse (w_raw w))"
    by (simp add: runAudit_summary)
  have agree: "s_checksRun (res_summary (fst (runAudit config w))) = int (length (parse (w_raw w)))
        \<and> s_checksPassed (res_summary (fst (runAudit config w)))
            = int (length (filter passed (parse (w_raw w))))"
    if "case raw_secureclaw (w_raw w) of
          None \<Rightarrow> True
        | Some out \<Rightarrow> out_checksRun out = int (length (out_findings out))
            \<and> out_checksPassed out = int (length (filter sc_passed (out_findings out)))"
    using that unfolding run pas length_parse length_passed_parse
    by (simp split: option.splits)
  show ?thesis
    apply (intro conjI)
              apply (rule runAudit_findings)
             apply (rule run)
            apply (rule pas)
           apply (rule fai)
          apply (rule sev(1))
         apply (rule sev(2))
        apply (rule sev(3))
       apply (rule sev(4))
      apply (rule sev(5))
     apply (rule sco)
    apply (rule impI, erule agree)
    done
qed

text \<open>
  The claim C8 as it is written says that \<^verbatim>\<open>checksRun\<close> is the number of findings
  and \<^verbatim>\<open>checksPassed\<close> the number of findings that passed. For a scanner output that
  reports 55 checks run and 54 passed and lists one failing finding, the summary holds
  55 and 54 while the run has one finding, none of them passed.
\<close>

theorem C8_scanner_counts_are_taken_as_reported:
  "int (length (res_findings (fst (runAudit fixtureConfig (fixtureWorld
        \<lparr> raw_secureclaw = Some (fixtureScannerOutput 55 54 [fixtureScannerFinding]),
          raw_customChecks = [], raw_errors = [] \<rparr>))))) = 1
   \<and> s_checksRun (res_summary (fst (runAudit fixtureConfig (fixtureWorld
        \<lparr> raw_secureclaw = Some (fixtureScannerOutput 55 54 [fixtureScannerFinding]),
          raw_customChecks = [], raw_errors = [] \<rparr>)))) = 55
   \<and> int (length (filter passed (res_findings (fst (runAudit fixtureConfig (fixtureWorld
        \<lparr> raw_secureclaw = Some (fixtureScannerOutput 55 54 [fixtureScannerFinding]),
          raw_customChecks = [], raw_errors = [] \<rparr>)))))) = 0
   \<and> s_checksPassed (res_summary (fst (runAudit fixtureConfig (fixtureWorld
        \<lparr> raw_secureclaw = Some (fixtureScannerOutput 55 54 [fixtureScannerFinding]),
          raw_customChecks = [], raw_errors = [] \<rparr>)))) = 54"
  by (simp add: runAudit_findings runAudit_summary fixtureWorld_def length_parse
      length_passed_parse getTotalChecksRun_def getTotalChecksPassed_def
      fixtureScannerOutput_def fixtureScannerFinding_def)

theorem C8_summary_aggregates_witness:
  "out_checksRun (fixtureScannerOutput 2 1
        [fixtureScannerFinding, fixtureScannerFinding\<lparr>sc_id := ''SC-021'', sc_passed := True\<rparr>])
     = int (length (out_findings (fixtureScannerOutput 2 1
        [fixtureScannerFinding, fixtureScannerFinding\<lparr>sc_id := ''SC-021'', sc_passed := True\<rparr>])))
   \<and> out_checksPassed (fixtureScannerOutput 2 1
        [fixtureScannerFinding, fixtureScannerFinding\<lparr>sc_id := ''SC-021'', sc_passed := True\<rparr>])
     = int (length (filter sc_passed (out_findings (fixtureScannerOutput 2 1
        [fixtureScannerFinding, fixtureScannerFinding\<lparr>sc_id := ''SC-021'', sc_passed := True\<rparr>]))))
   \<and> s_checksRun (res_summary (fst (runAudit fixtureConfig (fixtureWorld
        \<lparr> raw_secureclaw = Some (fixtureScannerOutput 2 1
            [fixtureScannerFinding, fixtureScannerFinding\<lparr>sc_id := ''SC-021'', sc_passed := True\<rparr>]),
          raw_customChecks = [fixtureCustomCheck], raw_errors = [] \<rparr>)))) = 3
   \<and> int (length (parse
        \<lparr> raw_secureclaw = Some (fixtureScannerOutput 2 1
            [fixtureScannerFinding, fixtureScannerFinding\<lparr>sc_id := ''SC-021'', sc_passed := True\<rparr>]),
          raw_customChecks = [fixtureCustomCheck], raw_errors = [] \<rparr>)) = 3
   \<and> s_checksPassed (res_summary (fst (runAudit fixtureConfig (fixtureWorld
        \<lparr> raw_secureclaw = Some (fixtureScannerOutput 2 1
            [fixtureScannerFinding, fixtureScannerFinding\<lparr>sc_id := ''SC-021'', sc_passed := True\<rparr>]),
          raw_customChecks = [fixtureCustomCheck], raw_errors = [] \<rparr>)))) = 2
   \<and> int (length (filter passed (parse
        \<lparr> raw_secureclaw = Some (fixtureScannerOutput 2 1
            [fixtureScannerFinding, fixtureScannerFinding\<lparr>sc_id := ''SC-021'', sc_passed := True\<rparr>]),
          raw_customChecks = [fixtureCustomCheck], raw_errors = [] \<rparr>))) = 2"
proof -
  let ?out = "fixtureScannerOutput 2 1
        [fixtureScannerFinding, fixtureScannerFinding\<lparr>sc_id := ''SC-021'', sc_passed := True\<rparr>]"
  let ?raw = "\<lparr> raw_secureclaw = Some ?out, raw_customChecks = [fixtureCustomCheck], raw_errors = [] \<rparr>"
  let ?s = "res_summary (fst (runAudit fixtureConfig (fixtureWorld ?raw)))"
  have counts: "out_checksRun ?out = int (length (out_findings ?out))
      \<and> out_checksPassed ?out = int (length (filter sc_passed (out_findings ?out)))"
    by (simp add: fixtureScannerOutput_def fixtureScannerFinding_def)
  have raw: "w_raw (fixtureWorld ?raw) = ?raw"
    by (simp add: fixtureWorld_def)
  have hyp: "case raw_secureclaw (w_raw (fixtureWorld ?raw)) of
          None \<Rightarrow> True
        | Some out \<Rightarrow> out_checksRun out = int (length (out_findings out))
            \<and> out_checksPassed out = int (length (filter sc_passed (out_findings out)))"
    unfolding raw using counts by simp
  have eq: "s_checksRun ?s = int (length (parse ?raw))
      \<and> s_checksPassed ?s = int (length (filter passed (parse ?raw)))"
    using C8_summary_aggregates [of fixtureConfig "fixtureWorld ?raw"] hyp
    unfolding raw by blast
  have n: "int (length (parse ?raw)) = 3" "int (length (filter passed (parse ?raw))) = 2"
    by (simp_all add: length_parse length_passed_parse fixtureScannerOutput_def
        fixtureScannerFinding_def fixtureCustomCheck_def)
  from counts eq n show ?thesis by simp
qed

section \<open>Exit codes\<close>

text \<open>
  The exit codes that are as the specification lists them: 1 when the options or the
  environment are rejected and when \<^verbatim>\<open>runAudit\<close> throws, 2 when a run that is not a
  dry run has a new critical finding, 0 otherwise.
\<close>

lemma main_after_validation:
  "\<not> arg_help args \<Longrightarrow> map_of VALID_AUDIT_TYPES (arg_type args) = Some t \<Longrightarrow>
   map_of VALID_TRIGGER_SOURCES (arg_triggeredBy args) = Some tr \<Longrightarrow>
   arg_dryRun args \<or> (env_convexUrl args \<noteq> [] \<and> env_apiKey args \<noteq> []) \<Longrightarrow>
   fst (main args run) =
     (case run \<lparr> cfg_type = t, cfg_triggeredBy = tr, cfg_dryRun = arg_dryRun args \<rparr> of
        Inl err \<Rightarrow> 1
      | Inr result \<Rightarrow> if newCriticals (res_diff result) \<noteq> [] \<and> \<not> arg_dryRun args then 2 else 0)"
  by (auto simp: main_def split: sum.splits)

lemma main_rejects:
  "\<not> arg_help args \<Longrightarrow>
   map_of VALID_AUDIT_TYPES (arg_type args) = None
   \<or> map_of VALID_TRIGGER_SOURCES (arg_triggeredBy args) = None
   \<or> (\<not> arg_dryRun args \<and> (env_convexUrl args = [] \<or> env_apiKey args = [])) \<Longrightarrow>
   fst (main args run) = 1"
  by (auto simp: main_def split: option.splits)

text \<open>
  C9. The claim says that a run whose list of non-fatal errors is not empty exits with
  a code that tells it from a clean run. A run that is not a dry run, with no new
  critical finding and one error from a failed check script, prints the error and
  exits with code 0, the code of the clean run; the block that prints the errors stands
  under the comment \<^verbatim>\<open>// Exit non-zero if there are errors\<close>.
\<close>

theorem C9_pipeline_errors_exit_like_clean:
  "res_errors (fst (runAudit fixtureConfig (fixtureWorld
       \<lparr> raw_secureclaw = Some (fixtureScannerOutput 55 55 []), raw_customChecks = [],
         raw_errors = [''Check script git-secret-scan.sh exited with code 1: ''] \<rparr>)))
     = [''Check script git-secret-scan.sh exited with code 1: '']
   \<and> main fixtureArgs (\<lambda>config. Inr (fst (runAudit config (fixtureWorld
       \<lparr> raw_secureclaw = Some (fixtureScannerOutput 55 55 []), raw_customChecks = [],
         raw_errors = [''Check script git-secret-scan.sh exited with code 1: ''] \<rparr>))))
     = (0, [''  - Check script git-secret-scan.sh exited with code 1: ''])
   \<and> res_errors (fst (runAudit fixtureConfig (fixtureWorld
       \<lparr> raw_secureclaw = Some (fixtureScannerOutput 55 55 []), raw_customChecks = [], raw_errors = [] \<rparr>))) = []
   \<and> main fixtureArgs (\<lambda>config. Inr (fst (runAudit config (fixtureWorld
       \<lparr> raw_secureclaw = Some (fixtureScannerOutput 55 55 []), raw_customChecks = [], raw_errors = [] \<rparr>))))
     = (0, [])"
  by (simp add: main_def fixtureArgs_def VALID_AUDIT_TYPES_def VALID_TRIGGER_SOURCES_def
      runAudit_def Let_def fixtureWorld_def fixtureConfig_def fixtureScannerOutput_def parse_def compute_None)

end
